theory Spec2Isabelle
  imports Complex_Main "HOL-Library.Multiset" "HOL-Library.Sublist"
begin

section \<open>Python values shared by the pipeline tools\<close>

text \<open>
  Strings are lists of 8-bit characters read as code points below 256. The two canned
  messages contain U+2019, which is written as its three UTF-8 bytes. Embedding
  components and the temperature are passed through unchanged and are modelled as reals;
  distances and scores, which the code computes with and compares, are \<open>pyfloat\<close>
  values. A raised exception is the \<open>Inl\<close> of a sum type.
\<close>

datatype error =
    ValueError string
  | RuntimeError string
  | LocationParseError string
  | BackendError

subsection \<open>Double-precision floats\<close>

text \<open>
  A Python float is a finite value, an infinity or NaN. Rounding a real number to the
  nearest double is done by the hardware, not by the repository; it is a parameter
  \<open>rnd\<close> of every operation that rounds.
\<close>

datatype pyfloat = Finite real | PlusInf | MinusInf | NaN

text \<open>\<open>1.0 - d\<close>\<close>

fun one_minus :: "(real \<Rightarrow> pyfloat) \<Rightarrow> pyfloat \<Rightarrow> pyfloat" where
  "one_minus rnd (Finite d) = rnd (1 - d)"
| "one_minus rnd PlusInf = MinusInf"
| "one_minus rnd MinusInf = PlusInf"
| "one_minus rnd NaN = NaN"

text \<open>\<open>a < b\<close> on floats: false whenever one side is NaN.\<close>

fun float_lt :: "pyfloat \<Rightarrow> pyfloat \<Rightarrow> bool" where
  "float_lt NaN b = False"
| "float_lt a NaN = False"
| "float_lt (Finite x) (Finite y) = (x < y)"
| "float_lt (Finite x) PlusInf = True"
| "float_lt (Finite x) MinusInf = False"
| "float_lt PlusInf b = False"
| "float_lt MinusInf MinusInf = False"
| "float_lt MinusInf b = True"


text \<open>\<open>str.isspace\<close> on one character with a code point below 256.\<close>

definition is_space :: "char \<Rightarrow> bool" where
  "is_space c \<longleftrightarrow> c \<in> {CHR 0x09, CHR 0x0A, CHR 0x0B, CHR 0x0C, CHR 0x0D,
                       CHR 0x1C, CHR 0x1D, CHR 0x1E, CHR 0x1F, CHR 0x20, CHR 0x85, CHR 0xA0}"

text \<open>\<open>s.strip()\<close>\<close>

definition strip :: "string \<Rightarrow> string" where
  "strip s = rev (dropWhile is_space (rev (dropWhile is_space s)))"

text \<open>\<open>s.lower()\<close> on code points below 256.\<close>

definition lower_char :: "char \<Rightarrow> char" where
  "lower_char c =
     (let n = (of_char c :: nat)
      in if (65 \<le> n \<and> n \<le> 90) \<or> (192 \<le> n \<and> n \<le> 222 \<and> n \<noteq> 215)
         then char_of (n + 32) else c)"

definition lower :: "string \<Rightarrow> string" where
  "lower s = map lower_char s"

text \<open>\<open>f"{n}"\<close> for a non-negative integer.\<close>

definition digit :: "nat \<Rightarrow> char" where
  "digit d = ''0123456789'' ! (d mod 10)"

fun decimal :: "nat \<Rightarrow> string" where
  "decimal n = (if n < 10 then [digit n] else decimal (n div 10) @ [digit n])"

declare decimal.simps [simp del]

text \<open>\<open>x or ""\<close> where \<open>x\<close> is a string or \<open>None\<close> (or a missing key read with \<open>.get\<close>).\<close>

definition or_empty :: "string option \<Rightarrow> string" where
  "or_empty x = (case x of None \<Rightarrow> [] | Some s \<Rightarrow> s)"

text \<open>\<open>x or default\<close> where \<open>x\<close> is an integer or \<open>None\<close>: zero is falsy too.\<close>

definition or_default :: "int option \<Rightarrow> int \<Rightarrow> int" where
  "or_default x d = (case x of None \<Rightarrow> d | Some v \<Rightarrow> if v = 0 then d else v)"

subsection \<open>config/settings.py\<close>

record settings =
  LLM_PROVIDER :: string
  LLM_MODEL :: string
  EMBEDDINGS_PROVIDER :: string
  EMBEDDING_MODEL :: string
  MAX_SEARCH_RESULTS :: int
  REQUEST_TIMEOUT_SECONDS :: int
  MAX_RETRIES :: int
  USER_AGENT :: string
  CHROMA_COLLECTION_PREFIX :: string
  CHUNK_SIZE_TOKENS :: int
  CHUNK_OVERLAP_TOKENS :: int
  RETRIEVAL_TOP_K :: int
  OPENAI_API_KEY :: string
  SERPAPI_API_KEY :: string
  GROQ_API_KEY :: string

text \<open>The defaults of \<open>_Settings\<close>, with keys set so that \<open>__post_init__\<close> passes.\<close>

definition default_settings :: settings where
  "default_settings =
     \<lparr> LLM_PROVIDER = ''openai'', LLM_MODEL = ''gpt-4o-mini'',
       EMBEDDINGS_PROVIDER = ''openai'', EMBEDDING_MODEL = ''text-embedding-3-small'',
       MAX_SEARCH_RESULTS = 20, REQUEST_TIMEOUT_SECONDS = 15, MAX_RETRIES = 2,
       USER_AGENT = ''ResearchAgent/1.0 (+https://example.com/contact)'',
       CHROMA_COLLECTION_PREFIX = ''research_'',
       CHUNK_SIZE_TOKENS = 800, CHUNK_OVERLAP_TOKENS = 120, RETRIEVAL_TOP_K = 6,
       OPENAI_API_KEY = ''sk-test'', SERPAPI_API_KEY = ''serp-test'', GROQ_API_KEY = [] \<rparr>"

section \<open>The vector store boundary\<close>

text \<open>
  The persistent Chroma client is a map from collection names to collections. A
  collection keeps its creation metadata and its entries, keyed by id.
\<close>

record metadata =
  m_url :: "string option"
  m_title :: "string option"
  m_order :: "int option"
  m_added_at :: "string option"

definition empty_metadata :: metadata where
  "empty_metadata = \<lparr> m_url = None, m_title = None, m_order = None, m_added_at = None \<rparr>"

record indexed_record =
  ir_embedding :: "real list"
  ir_document :: string
  ir_metadata :: metadata

record collection =
  col_metadata :: "(string \<times> string) list"
  col_entries :: "(string \<times> indexed_record) list"

type_synonym store = "string \<rightharpoonup> collection"

text \<open>
  The store is not part of the repository. Which collection names it accepts, and which
  batches its upsert accepts, are the store's own rules: they are parameters of the
  model, and a rejection is a raised exception.
\<close>

record store_env =
  accepts_name :: "string \<Rightarrow> bool"
  accepts_upsert :: "collection \<Rightarrow> string list \<Rightarrow> real list list \<Rightarrow> bool"

text \<open>
  Modelled from the spec: \<open>client.get_or_create_collection(name=..., metadata=...)\<close> is
  the store's, not the repository's. Section 6 gives it as create-or-get of a collection
  keyed by name: the collection of that name if there is one, else a new, empty one
  with the given metadata. A name the store rejects raises and creates nothing.
\<close>

definition get_or_create_collection ::
  "store_env \<Rightarrow> store \<Rightarrow> string \<Rightarrow> (string \<times> string) list \<Rightarrow> error + collection \<times> store" where
  "get_or_create_collection V st name md =
     (if \<not> accepts_name V name then Inl (ValueError ''invalid collection name'')
      else case st name of
             Some c \<Rightarrow> Inr (c, st)
           | None \<Rightarrow> (let c = \<lparr> col_metadata = md, col_entries = [] \<rparr> in Inr (c, st(name \<mapsto> c))))"

text \<open>
  Modelled from the spec: \<open>collection.upsert(...)\<close> is the store's, not the
  repository's. The glossary gives upsert as insert-or-overwrite by identifier; this is
  what it does to a batch the store has accepted.
\<close>

fun upsert_entry ::
  "string \<Rightarrow> indexed_record \<Rightarrow> (string \<times> indexed_record) list \<Rightarrow> (string \<times> indexed_record) list" where
  "upsert_entry k v [] = [(k, v)]"
| "upsert_entry k v ((k', v') # es) =
     (if k = k' then (k, v) # es else (k', v') # upsert_entry k v es)"

definition collection_upsert ::
  "collection \<Rightarrow> string list \<Rightarrow> real list list \<Rightarrow> string list \<Rightarrow> metadata list \<Rightarrow> collection" where
  "collection_upsert c ids embeddings documents metadatas =
     c \<lparr> col_entries :=
           fold (\<lambda>(i, e, d, m). upsert_entry i \<lparr> ir_embedding = e, ir_document = d, ir_metadata = m \<rparr>)
                (zip ids (zip embeddings (zip documents metadatas))) (col_entries c) \<rparr>"

subsection \<open>tools/upsert\_vectors.py\<close>

text \<open>
  A record handed to \<open>upsert_vectors\<close>. \<open>r_id\<close> is \<open>None\<close> when the key is missing;
  \<open>r_embedding\<close> is \<open>None\<close> when the value is not a list; \<open>r_document\<close> and
  \<open>r_metadata\<close> are \<open>None\<close> when missing or \<open>None\<close>.
\<close>

record in_record =
  r_id :: "string option"
  r_embedding :: "real list option"
  r_document :: "string option"
  r_metadata :: "metadata option"

definition collection_name :: "settings \<Rightarrow> string \<Rightarrow> string" where
  "collection_name S namespace = strip (CHROMA_COLLECTION_PREFIX S @ namespace)"

text \<open>The validation loop: the four parallel lists of the records that pass.\<close>

fun collect_valid ::
  "in_record list \<Rightarrow> string list \<times> real list list \<times> metadata list \<times> string list" where
  "collect_valid [] = ([], [], [], [])"
| "collect_valid (r # rs) =
     (let rid = strip (or_empty (r_id r));
          doc = strip (or_empty (r_document r));
          meta = (case r_metadata r of None \<Rightarrow> empty_metadata | Some m \<Rightarrow> m);
          (ids, embeddings, metadatas, documents) = collect_valid rs
      in case r_embedding r of
           None \<Rightarrow> (ids, embeddings, metadatas, documents)
         | Some vec \<Rightarrow>
             if rid = [] \<or> doc = [] then (ids, embeddings, metadatas, documents)
             else (rid # ids, vec # embeddings, meta # metadatas, doc # documents))"

text \<open>
  The exceptions of the two store calls are not caught: they leave \<open>upsert_vectors\<close>
  with the store as it was at that point.
\<close>

definition upsert_vectors ::
  "store_env \<Rightarrow> settings \<Rightarrow> string \<Rightarrow> in_record list \<Rightarrow> store \<Rightarrow> (error + nat) \<times> store" where
  "upsert_vectors V S namespace records st =
     (if namespace = [] then (Inl (ValueError ''namespace is required''), st)
      else if records = [] then (Inr 0, st)
      else
        case get_or_create_collection V st (collection_name S namespace)
               [(''hnsw:space'', ''cosine'')] of
          Inl e \<Rightarrow> (Inl e, st)
        | Inr (col, st1) \<Rightarrow>
            (let (ids, embeddings, metadatas, documents) = collect_valid records
             in if ids = [] then (Inr 0, st1)
                else if \<not> accepts_upsert V col ids embeddings
                then (Inl (ValueError ''upsert rejected''), st1)
                else (Inr (length ids),
                      st1(collection_name S namespace
                            \<mapsto> collection_upsert col ids embeddings documents metadatas))))"

subsection \<open>tools/retrieve\_context.py\<close>

record query_result =
  documents :: "string option list"
  metadatas :: "metadata option list"
  distances :: "pyfloat option list"

record retrieved_context =
  rc_text :: string
  rc_url :: string
  rc_title :: string
  score :: pyfloat

text \<open>
  The external collaborators of retrieval: the two embedding backends applied to one
  text, and the store's nearest-neighbour query (\<open>None\<close> is a raised exception); the
  rounding of a real to a double; and what \<open>list.sort\<close> makes of a list whose keys are
  not totally ordered because one is NaN, which the interpreter's sorting algorithm
  decides and the language does not.
\<close>

record retrieval_env =
  st_encode_one :: "string \<Rightarrow> string \<Rightarrow> real list option"
  openai_embed_one :: "string \<Rightarrow> string \<Rightarrow> real list option"
  collection_query :: "collection \<Rightarrow> real list \<Rightarrow> int \<Rightarrow> query_result option"
  round_double :: "real \<Rightarrow> pyfloat"
  sort_unordered :: "retrieved_context list \<Rightarrow> retrieved_context list"

definition embed_query :: "settings \<Rightarrow> retrieval_env \<Rightarrow> string \<Rightarrow> error + real list" where
  "embed_query S E txt =
     (let t = strip txt
      in if t = [] then Inr []
         else if lower (EMBEDDINGS_PROVIDER S) = ''sentencetransformers''
         then (case st_encode_one E (EMBEDDING_MODEL S) t of
                 None \<Rightarrow> Inl BackendError | Some v \<Rightarrow> Inr v)
         else (case openai_embed_one E (EMBEDDING_MODEL S) t of
                 None \<Rightarrow> Inl BackendError | Some v \<Rightarrow> Inr v))"

text \<open>One round of the loop over \<open>zip(docs, metas, dists)\<close>. A distance that \<open>float\<close>
  rejects is \<open>None\<close> and scores 0.\<close>

definition make_context ::
  "(real \<Rightarrow> pyfloat) \<Rightarrow> string option \<times> metadata option \<times> pyfloat option \<Rightarrow> retrieved_context" where
  "make_context rnd row =
     (case row of (doc, meta, dst) \<Rightarrow>
        \<lparr> rc_text = or_empty doc,
          rc_url = (case meta of None \<Rightarrow> [] | Some m \<Rightarrow> or_empty (m_url m)),
          rc_title = (case meta of None \<Rightarrow> [] | Some m \<Rightarrow> or_empty (m_title m)),
          score = (case dst of Some d \<Rightarrow> one_minus rnd d | None \<Rightarrow> Finite 0) \<rparr>)"

text \<open>
  \<open>out.sort(key=score, reverse=True)\<close>. The sort is stable and compares keys with \<open><\<close>
  only. On keys without NaN that order is total, and the result is the one list that is
  in descending order with equal keys left in their original order: stable insertion
  computes it. A list shorter than two is returned as it is. With a NaN key the result
  is the environment's.
\<close>

fun insort_desc :: "retrieved_context \<Rightarrow> retrieved_context list \<Rightarrow> retrieved_context list" where
  "insort_desc x [] = [x]"
| "insort_desc x (y # ys) =
     (if float_lt (score x) (score y) then y # insort_desc x ys else x # y # ys)"

definition stable_sort_desc :: "retrieved_context list \<Rightarrow> retrieved_context list" where
  "stable_sort_desc out = foldr insort_desc out []"

definition sort_by_score_desc :: "retrieval_env \<Rightarrow> retrieved_context list \<Rightarrow> retrieved_context list" where
  "sort_by_score_desc E out =
     (if length out < 2 then out
      else if NaN \<in> set (map score out) then sort_unordered E out
      else stable_sort_desc out)"


definition retrieve_context ::
  "settings \<Rightarrow> retrieval_env \<Rightarrow> store \<Rightarrow> string \<Rightarrow> string \<Rightarrow> int option
     \<Rightarrow> error + retrieved_context list" where
  "retrieve_context S E st namespace question top_k =
     (if namespace = [] \<or> question = [] then Inr []
      else
        let k = or_default top_k (RETRIEVAL_TOP_K S);
            col_name = collection_name S namespace
        in case st col_name of
             None \<Rightarrow> Inr []
           | Some col \<Rightarrow>
               (case embed_query S E question of
                  Inl e \<Rightarrow> Inl e
                | Inr qvec \<Rightarrow>
                    if qvec = [] then Inr []
                    else (case collection_query E col qvec (max 1 k) of
                            None \<Rightarrow> Inl BackendError
                          | Some res \<Rightarrow>
                              Inr (sort_by_score_desc E
                                     (map (make_context (round_double E))
                                        (zip (documents res) (zip (metadatas res) (distances res))))))))"

subsection \<open>tools/synthesize\_answer.py\<close>

record citation =
  c_url :: string
  c_title :: string

record answer =
  content :: string
  citations :: "citation list"

text \<open>
  The language-model boundary. Every call to a backend is a request; the log of requests
  is the state threaded through \<open>synthesize_answer\<close>, and the reply to a request is
  given by the environment.
\<close>

datatype llm_request =
    OpenAIChat string string string real
  | GroqChat string string string real
  | OllamaChat string string string real
  | OllamaGenerate string string real

record ollama_json =
  message_content :: "string option"
  response :: "string option"

datatype llm_reply =
    ChatMessage "string option"
  | HttpReply int "ollama_json option"
  | Raises

type_synonym llm_env = "llm_request \<Rightarrow> llm_reply"

type_synonym llm_log = "llm_request list"

definition no_context_message :: string where
  "no_context_message =
     ''I don'' @ [CHR 0xE2, CHR 0x80, CHR 0x99] @
     ''t have any supporting context yet. Try ingesting more sources for this topic.''"

definition sys_prompt :: string where
  "sys_prompt =
     ''You are a careful research assistant. Use ONLY the provided context blocks to answer.'' @ [CHR 0x0A] @
     ''Cite sources by listing the URLs you relied on. If info is insufficient, say so explicitly.'' @ [CHR 0x0A] @
     ''Structure the reply as:'' @ [CHR 0x0A] @
     [CHR 0xE2, CHR 0x80, CHR 0xA2] @ '' A short paragraph answer.'' @ [CHR 0x0A] @
     [CHR 0xE2, CHR 0x80, CHR 0xA2] @ '' 3-6 bullet points with key facts.'' @ [CHR 0x0A] @
     [CHR 0xE2, CHR 0x80, CHR 0xA2] @ '' A 'Sources:' section with URLs (deduplicated).'' @ [CHR 0x0A]"

text \<open>\<open>"\n".join(lines)\<close>\<close>

fun join_lines :: "string list \<Rightarrow> string" where
  "join_lines [] = []"
| "join_lines [l] = l"
| "join_lines (l # ls) = l @ [CHR 0x0A] @ join_lines ls"

fun format_lines :: "nat \<Rightarrow> retrieved_context list \<Rightarrow> string list" where
  "format_lines i [] = []"
| "format_lines i (c # cs) =
     (''['' @ decimal i @ ''] '' @ strip (rc_title c) @ [CHR 0x0A] @
      ''URL: '' @ strip (rc_url c) @ [CHR 0x0A] @ ''---'' @ [CHR 0x0A] @
      strip (rc_text c) @ [CHR 0x0A]) # format_lines (Suc i) cs"

definition format_contexts :: "retrieved_context list \<Rightarrow> string" where
  "format_contexts ctxs = join_lines (format_lines 1 ctxs)"

text \<open>The loop of \<open>_dedupe_urls\<close>, with its \<open>seen\<close> set and its output list.\<close>

fun dedupe_loop :: "retrieved_context list \<Rightarrow> string set \<Rightarrow> citation list \<Rightarrow> citation list" where
  "dedupe_loop [] seen out = out"
| "dedupe_loop (c # cs) seen out =
     (let u = strip (rc_url c); t = strip (rc_title c)
      in if u = [] \<or> u \<in> seen then dedupe_loop cs seen out
         else dedupe_loop cs (insert u seen) (out @ [\<lparr> c_url = u, c_title = t \<rparr>]))"

definition dedupe_urls :: "retrieved_context list \<Rightarrow> citation list" where
  "dedupe_urls ctxs = dedupe_loop ctxs {} []"

definition user_prompt :: "string \<Rightarrow> retrieved_context list \<Rightarrow> string \<Rightarrow> string" where
  "user_prompt question contexts style =
     (let ctx_block = format_contexts contexts;
          ctx_block = (if length ctx_block > 12000 then take 12000 ctx_block else ctx_block)
      in ''Question: '' @ question @ [CHR 0x0A, CHR 0x0A] @
         ''Context blocks (use these as your only sources; cite their URLs):'' @ [CHR 0x0A] @
         ctx_block @ [CHR 0x0A, CHR 0x0A] @ ''Style: '' @ style)"

text \<open>\<open>resp.choices[0].message.content.strip()\<close>: a \<open>None\<close> content has no \<open>strip\<close>.\<close>

definition chat_content :: "llm_reply \<Rightarrow> error + string" where
  "chat_content r = (case r of ChatMessage (Some s) \<Rightarrow> Inr (strip s) | _ \<Rightarrow> Inl BackendError)"

text \<open>The Ollama branch after the last POST: \<open>raise_for_status\<close>, \<open>json\<close>, and the
  content taken from \<open>message.content\<close> or else from \<open>response\<close>.\<close>

definition first_truthy :: "string option \<Rightarrow> string option \<Rightarrow> string" where
  "first_truthy a b = (if or_empty a \<noteq> [] then or_empty a else or_empty b)"

definition ollama_content :: "llm_reply \<Rightarrow> error + string" where
  "ollama_content r =
     (case r of
        HttpReply status js \<Rightarrow>
          if 400 \<le> status \<and> status < 600 then Inl BackendError
          else (case js of
                  None \<Rightarrow> Inl BackendError
                | Some j \<Rightarrow> Inr (strip (first_truthy (message_content j) (response j))))
      | _ \<Rightarrow> Inl BackendError)"

definition call_backend :: "settings \<Rightarrow> llm_env \<Rightarrow> string \<Rightarrow> string \<Rightarrow> real \<Rightarrow> llm_log
    \<Rightarrow> (error + string) \<times> llm_log" where
  "call_backend S L sys usr temperature calls =
     (let provider = strip (lower (LLM_PROVIDER S))
      in if provider = ''openai'' then
           (let rq = OpenAIChat (LLM_MODEL S) sys usr temperature
            in (chat_content (L rq), calls @ [rq]))
         else if provider = ''ollama'' then
           (let rq = OllamaChat (LLM_MODEL S) sys usr temperature;
                r = L rq
            in case r of
                 Raises \<Rightarrow> (Inl BackendError, calls @ [rq])
               | ChatMessage _ \<Rightarrow> (Inl BackendError, calls @ [rq])
               | HttpReply status _ \<Rightarrow>
                   if status = 404 then
                     (let rq2 = OllamaGenerate (LLM_MODEL S) (sys @ [CHR 0x0A, CHR 0x0A] @ usr) temperature
                      in (ollama_content (L rq2), calls @ [rq, rq2]))
                   else (ollama_content r, calls @ [rq]))
         else if provider = ''groq'' then
           (let rq = GroqChat (LLM_MODEL S) sys usr temperature
            in (chat_content (L rq), calls @ [rq]))
         else (Inl (RuntimeError (''Unsupported LLM_PROVIDER: '' @ LLM_PROVIDER S)), calls))"

definition synthesize_answer ::
  "settings \<Rightarrow> llm_env \<Rightarrow> string \<Rightarrow> retrieved_context list \<Rightarrow> string \<Rightarrow> real \<Rightarrow> llm_log
     \<Rightarrow> (error + answer) \<times> llm_log" where
  "synthesize_answer S L question contexts style temperature calls =
     (if contexts = [] then
        (Inr \<lparr> content = no_context_message, citations = [] \<rparr>, calls)
      else
        case call_backend S L sys_prompt (user_prompt question contexts style) temperature calls of
          (Inl e, calls') \<Rightarrow> (Inl e, calls')
        | (Inr txt, calls') \<Rightarrow> (Inr \<lparr> content = txt, citations = dedupe_urls contexts \<rparr>, calls'))"

subsection \<open>pipelines/qa.py\<close>

definition no_relevant_context_message :: string where
  "no_relevant_context_message =
     ''I couldn'' @ [CHR 0xE2, CHR 0x80, CHR 0x99] @
     ''t find relevant context in this namespace. Try ingesting more sources or re-ingesting with --force.''"

definition answer_question ::
  "settings \<Rightarrow> retrieval_env \<Rightarrow> llm_env \<Rightarrow> store \<Rightarrow> string \<Rightarrow> string \<Rightarrow> int option \<Rightarrow> llm_log
     \<Rightarrow> (error + answer) \<times> llm_log" where
  "answer_question S E L st question namespace top_k calls =
     (let k = or_default top_k (RETRIEVAL_TOP_K S)
      in case retrieve_context S E st namespace question (Some k) of
           Inl e \<Rightarrow> (Inl e, calls)
         | Inr ctxs \<Rightarrow>
             if ctxs = [] then
               (Inr \<lparr> content = no_relevant_context_message, citations = [] \<rparr>, calls)
             else synthesize_answer S L question ctxs ''concise'' (2 / 10) calls)"

section \<open>Search, fetch, chunk, embed\<close>

subsection \<open>The \<open>urllib.parse\<close> boundary\<close>

text \<open>
  The standard library's URL functions are parameters of the model. \<open>None\<close> is a
  raised exception. The query pairs given to \<open>urlencode\<close> are already filtered.
\<close>

record url_parts =
  u_scheme :: string
  u_netloc :: string
  u_path :: string
  u_params :: string
  u_query :: string
  u_fragment :: string

record urllib =
  urlparse :: "string \<Rightarrow> url_parts option"
  urlunparse :: "url_parts \<Rightarrow> string option"
  parse_qsl :: "string \<Rightarrow> (string \<times> string) list option"
  urlencode :: "(string \<times> string) list \<Rightarrow> string option"

subsection \<open>tools/search\_web.py\<close>

definition UTM_KEYS :: "string set" where
  "UTM_KEYS = {''utm_source'', ''utm_medium'', ''utm_campaign'', ''utm_term'', ''utm_content'',
               ''gclid'', ''fbclid'', ''igshid'', ''mc_cid'', ''mc_eid'', ''_hsenc'', ''_hsmi''}"

definition normalize_url :: "urllib \<Rightarrow> string \<Rightarrow> string" where
  "normalize_url U u =
     (case urlparse U (strip u) of
        None \<Rightarrow> []
      | Some p \<Rightarrow>
          if u_scheme p \<noteq> ''http'' \<and> u_scheme p \<noteq> ''https'' then []
          else (case parse_qsl U (u_query p) of
                  None \<Rightarrow> []
                | Some pairs \<Rightarrow>
                    (case urlencode U (filter (\<lambda>(k, v). k \<notin> UTM_KEYS) pairs) of
                       None \<Rightarrow> []
                     | Some q \<Rightarrow>
                         (case urlunparse U (p \<lparr> u_query := q, u_fragment := [] \<rparr>) of
                            None \<Rightarrow> []
                          | Some r \<Rightarrow> r))))"

definition domain :: "urllib \<Rightarrow> string \<Rightarrow> string" where
  "domain U u = (case urlparse U u of None \<Rightarrow> [] | Some p \<Rightarrow> lower (u_netloc p))"

record search_hit =
  h_title :: string
  h_url :: string
  h_snippet :: string

text \<open>\<open>domain_counts.get(d, 0)\<close>\<close>

definition count_of :: "(string \<rightharpoonup> int) \<Rightarrow> string \<Rightarrow> int" where
  "count_of domain_counts d = (case domain_counts d of None \<Rightarrow> 0 | Some n \<Rightarrow> n)"

text \<open>The loop of \<open>_dedupe_and_diversify\<close> with its three accumulators.\<close>

fun dd_loop ::
  "urllib \<Rightarrow> int \<Rightarrow> search_hit list \<Rightarrow> string set \<Rightarrow> (string \<rightharpoonup> int) \<Rightarrow> search_hit list
     \<Rightarrow> search_hit list" where
  "dd_loop U per_domain_limit [] seen_urls domain_counts out = out"
| "dd_loop U per_domain_limit (it # items) seen_urls domain_counts out =
     (if h_url it = [] \<or> h_url it \<in> seen_urls
      then dd_loop U per_domain_limit items seen_urls domain_counts out
      else if domain U (h_url it) = []
      then dd_loop U per_domain_limit items seen_urls domain_counts out
      else if count_of domain_counts (domain U (h_url it)) \<ge> per_domain_limit
      then dd_loop U per_domain_limit items seen_urls domain_counts out
      else dd_loop U per_domain_limit items
             (insert (h_url it) seen_urls)
             (domain_counts(domain U (h_url it) \<mapsto> count_of domain_counts (domain U (h_url it)) + 1))
             (out @ [it]))"

definition dedupe_and_diversify :: "urllib \<Rightarrow> search_hit list \<Rightarrow> int \<Rightarrow> search_hit list" where
  "dedupe_and_diversify U items per_domain_limit = dd_loop U per_domain_limit items {} Map.empty []"

text \<open>One entry of the provider's \<open>organic_results\<close>; a missing or null field is \<open>None\<close>.\<close>

record serp_item =
  link :: "string option"
  s_title :: "string option"
  snippet :: "string option"

text \<open>
  What one \<open>requests.get\<close> inside the \<open>try\<close> gives: a response with its status and, for
  the body, the value of \<open>organic_results\<close> (\<open>None\<close> when missing or null); or a
  \<open>RequestException\<close>, which also covers a body that \<open>r.json()\<close> rejects.
\<close>

datatype serp_outcome =
    SerpResponse int "serp_item list option"
  | SerpRequestException

type_synonym serp_env = "string \<Rightarrow> int \<Rightarrow> nat \<Rightarrow> serp_outcome"

fun build_results :: "urllib \<Rightarrow> serp_item list \<Rightarrow> search_hit list" where
  "build_results U [] = []"
| "build_results U (item # organic) =
     (let url = normalize_url U (strip (or_empty (link item)));
          title = strip (or_empty (s_title item));
          snip = strip (or_empty (snippet item))
      in if url \<noteq> [] \<and> title \<noteq> []
         then \<lparr> h_title = title, h_url = url, h_snippet = snip \<rparr> # build_results U organic
         else build_results U organic)"

text \<open>The \<open>for attempt in range(MAX_RETRIES + 1)\<close> loop, over the attempts left.\<close>

fun search_attempts :: "urllib \<Rightarrow> serp_env \<Rightarrow> string \<Rightarrow> int \<Rightarrow> nat list \<Rightarrow> search_hit list" where
  "search_attempts U G query k [] = []"
| "search_attempts U G query k (attempt # rest) =
     (case G query k attempt of
        SerpRequestException \<Rightarrow> search_attempts U G query k rest
      | SerpResponse status body \<Rightarrow>
          if status = 200 then
            take (nat k)
              (dedupe_and_diversify U
                 (build_results U (case body of None \<Rightarrow> [] | Some organic \<Rightarrow> organic)) 2)
          else if status \<in> {429, 500, 502, 503, 504} then search_attempts U G query k rest
          else [])"

definition search_web :: "settings \<Rightarrow> urllib \<Rightarrow> serp_env \<Rightarrow> string \<Rightarrow> int \<Rightarrow> search_hit list" where
  "search_web S U G query k =
     (if SERPAPI_API_KEY S = [] then []
      else search_attempts U G query (max 1 (min k (MAX_SEARCH_RESULTS S)))
             [0 ..< nat (MAX_RETRIES S + 1)])"

subsection \<open>tools/fetch\_page.py\<close>

record fetched_page =
  fp_url :: string
  fp_html :: string
  fp_status :: int

text \<open>
  What one \<open>requests.get\<close> gives: a response (status code, \<open>Content-Type\<close> header,
  decoded text); a \<open>RequestException\<close>, the class the loop handles; or an exception of
  another class, such as the \<open>LocationParseError\<close> of the URL parser underneath or the
  \<open>ValueError\<close> for a timeout that is not positive. The outcome is given per URL,
  timeout and attempt number.
\<close>

datatype http_outcome =
    HttpResponse int "string option" string
  | RequestException
  | UnhandledException error

type_synonym http_env = "string \<Rightarrow> int \<Rightarrow> int \<Rightarrow> http_outcome"

definition is_http_url :: "urllib \<Rightarrow> string \<Rightarrow> bool" where
  "is_http_url U u =
     (case urlparse U u of
        None \<Rightarrow> False
      | Some p \<Rightarrow> lower (u_scheme p) = ''http'' \<or> lower (u_scheme p) = ''https'')"

text \<open>\<open>sub in s\<close> for strings.\<close>

fun contains :: "string \<Rightarrow> string \<Rightarrow> bool" where
  "contains sub [] = (sub = [])"
| "contains sub (c # cs) = (take (length sub) (c # cs) = sub \<or> contains sub cs)"

definition retryable_status :: "int \<Rightarrow> bool" where
  "retryable_status status \<longleftrightarrow> status \<in> {408, 409, 425, 429, 500, 502, 503, 504}"

text \<open>
  The \<open>while attempt < max_attempts\<close> loop; \<open>attempt\<close> is its value on entry. The only
  handler is \<open>except requests.RequestException\<close>: an exception of another class leaves
  the function.
\<close>

function fetch_loop :: "http_env \<Rightarrow> string \<Rightarrow> int \<Rightarrow> int \<Rightarrow> int \<Rightarrow> error + fetched_page" where
  "fetch_loop H url timeout max_attempts attempt =
     (if attempt < max_attempts then
        (case H url timeout (attempt + 1) of
           RequestException \<Rightarrow>
             if attempt + 1 < max_attempts
             then fetch_loop H url timeout max_attempts (attempt + 1)
             else Inr \<lparr> fp_url = url, fp_html = [], fp_status = 0 \<rparr>
         | UnhandledException e \<Rightarrow> Inl e
         | HttpResponse status ctype body \<Rightarrow>
             if status \<noteq> 200 then
               (if retryable_status status \<and> attempt + 1 < max_attempts
                then fetch_loop H url timeout max_attempts (attempt + 1)
                else Inr \<lparr> fp_url = url, fp_html = [], fp_status = status \<rparr>)
             else if \<not> contains ''text/html'' (lower (or_empty ctype))
                   \<and> \<not> contains ''application/xhtml+xml'' (lower (or_empty ctype))
             then Inr \<lparr> fp_url = url, fp_html = [], fp_status = status \<rparr>
             else Inr \<lparr> fp_url = url, fp_html = body, fp_status = status \<rparr>)
      else Inr \<lparr> fp_url = url, fp_html = [], fp_status = 0 \<rparr>)"
  by pat_completeness auto
termination
  by (relation "measure (\<lambda>(H, url, timeout, max_attempts, attempt). nat (max_attempts - attempt))") auto

declare fetch_loop.simps [simp del]

definition fetch_page ::
  "settings \<Rightarrow> urllib \<Rightarrow> http_env \<Rightarrow> string \<Rightarrow> int option \<Rightarrow> error + fetched_page" where
  "fetch_page S U H url timeout_sec =
     (if \<not> is_http_url U url then Inr \<lparr> fp_url = url, fp_html = [], fp_status = 0 \<rparr>
      else fetch_loop H url (or_default timeout_sec (REQUEST_TIMEOUT_SECONDS S)) (MAX_RETRIES S + 1) 0)"

subsection \<open>tools/split\_chunks.py\<close>

record chunk =
  chunk_id :: string
  ch_text :: string
  ch_url :: string
  ch_title :: string
  ch_order :: nat

text \<open>
  \<open>hashlib.sha1(...).hexdigest()\<close> and the LangChain splitter are parameters. The
  splitter is given the chunk size, the overlap and the text; \<open>None\<close> is a raised
  exception (the constructor rejects an overlap above the chunk size).
\<close>

type_synonym sha1_hexdigest = "string \<Rightarrow> string"

type_synonym text_splitter = "int \<Rightarrow> int \<Rightarrow> string \<Rightarrow> string list option"

definition hash_id :: "sha1_hexdigest \<Rightarrow> string \<Rightarrow> string" where
  "hash_id sha1 s = sha1 s"

text \<open>\<open>.replace("\n", " ")\<close>\<close>

definition replace_newlines :: "string \<Rightarrow> string" where
  "replace_newlines s = map (\<lambda>c. if c = CHR 0x0A then CHR 0x20 else c) s"

text \<open>The loop over \<open>enumerate(pieces)\<close>; \<open>order\<close> is the index of the head.\<close>

fun chunk_loop :: "sha1_hexdigest \<Rightarrow> string \<Rightarrow> string option \<Rightarrow> nat \<Rightarrow> string list \<Rightarrow> chunk list" where
  "chunk_loop sha1 url title order [] = []"
| "chunk_loop sha1 url title order (piece # pieces) =
     (let t = strip piece
      in if t = [] then chunk_loop sha1 url title (Suc order) pieces
         else \<lparr> chunk_id = hash_id sha1 (url @ ''|'' @ decimal order @ ''|'' @ replace_newlines (take 40 t)),
                ch_text = t, ch_url = url, ch_title = or_empty title, ch_order = order \<rparr>
              # chunk_loop sha1 url title (Suc order) pieces)"

definition split_chunks ::
  "settings \<Rightarrow> sha1_hexdigest \<Rightarrow> text_splitter \<Rightarrow> string \<Rightarrow> string \<Rightarrow> string option
     \<Rightarrow> int option \<Rightarrow> int option \<Rightarrow> error + chunk list" where
  "split_chunks S sha1 splitter doc_text url title chunk_size_tokens overlap_tokens =
     (if doc_text = [] then Inr []
      else case splitter (or_default chunk_size_tokens (CHUNK_SIZE_TOKENS S))
                         (or_default overlap_tokens (CHUNK_OVERLAP_TOKENS S)) doc_text of
             None \<Rightarrow> Inl (ValueError ''splitter'')
           | Some pieces \<Rightarrow> Inr (chunk_loop sha1 url title 0 pieces))"

subsection \<open>tools/embed\_chunks.py\<close>



















section \<open>Example inputs\<close>

definition empty_store :: store where
  "empty_store name = None"

text \<open>A record whose embedding is not a list.\<close>

definition malformed_record :: in_record where
  "malformed_record =
     \<lparr> r_id = Some ''x1'', r_embedding = None, r_document = Some ''hello'', r_metadata = None \<rparr>"

definition cosine_collection :: collection where
  "cosine_collection = \<lparr> col_metadata = [(''hnsw:space'', ''cosine'')], col_entries = [] \<rparr>"

definition demo_store :: store where
  "demo_store = empty_store(''research_demo'' \<mapsto> cosine_collection)"

text \<open>
  A store that accepts a collection name of at least three characters without a space,
  and a batch whose ids are distinct and as many as its embeddings.
\<close>

definition demo_store_env :: store_env where
  "demo_store_env =
     \<lparr> accepts_name = (\<lambda>n. 3 \<le> length n \<and> CHR '' '' \<notin> set n),
       accepts_upsert = (\<lambda>col ids embeddings. distinct ids \<and> length embeddings = length ids) \<rparr>"

text \<open>
  Query results with three rows, and backends that always answer. The distances are
  binary fractions, and so are the differences \<open>1 - d\<close>: rounding leaves them as they
  are. The second result reports a NaN distance in the middle row: every pair of
  neighbours the interpreter's sort compares holds the NaN, every comparison is false, and
  the list stays as it is.
\<close>

definition demo_metadatas :: "metadata option list" where
  "demo_metadatas =
     [Some (empty_metadata \<lparr> m_url := Some ''https://a.example/1'', m_title := Some ''A'' \<rparr>),
      None,
      Some (empty_metadata \<lparr> m_url := Some ''https://c.example/3'' \<rparr>)]"

definition demo_query_result :: query_result where
  "demo_query_result =
     \<lparr> documents = [Some ''alpha'', Some ''beta'', None],
       metadatas = demo_metadatas,
       distances = [Some (Finite (1 / 4)), Some (Finite (1 / 8)), Some (Finite (1 / 2))] \<rparr>"


definition demo_retrieval_env :: retrieval_env where
  "demo_retrieval_env =
     \<lparr> st_encode_one = (\<lambda>model txt. Some [1, 0]),
       openai_embed_one = (\<lambda>model txt. Some [0, 1]),
       collection_query = (\<lambda>col qvec n. Some demo_query_result),
       round_double = Finite,
       sort_unordered = (\<lambda>out. out) \<rparr>"


definition ctx :: "string \<Rightarrow> string \<Rightarrow> string \<Rightarrow> pyfloat \<Rightarrow> retrieved_context" where
  "ctx txt u t s = \<lparr> rc_text = txt, rc_url = u, rc_title = t, score = s \<rparr>"

definition demo_llm :: llm_env where
  "demo_llm rq = ChatMessage (Some '' An answer. '')"

text \<open>
  The spec's reading of the citation list: the \<open>{url, title}\<close> pairs of the contexts,
  deduplicated by url, the first appearance kept.
\<close>

definition context_pairs :: "retrieved_context list \<Rightarrow> citation list" where
  "context_pairs ctxs = map (\<lambda>c. \<lparr> c_url = rc_url c, c_title = rc_title c \<rparr>) ctxs"

fun dedupe_by_url_first :: "citation list \<Rightarrow> citation list" where
  "dedupe_by_url_first [] = []"
| "dedupe_by_url_first (p # ps) = p # dedupe_by_url_first (filter (\<lambda>q. c_url q \<noteq> c_url p) ps)"

definition spec_citations :: "retrieved_context list \<Rightarrow> citation list" where
  "spec_citations ctxs = dedupe_by_url_first (context_pairs ctxs)"

text \<open>The pairs as the code reads them: url and title stripped of surrounding whitespace.\<close>

definition stripped_pairs :: "retrieved_context list \<Rightarrow> citation list" where
  "stripped_pairs ctxs = map (\<lambda>c. \<lparr> c_url = strip (rc_url c), c_title = strip (rc_title c) \<rparr>) ctxs"

definition context_of :: "string \<Rightarrow> string \<Rightarrow> retrieved_context" where
  "context_of u t = \<lparr> rc_text = ''some text'', rc_url = u, rc_title = t, score = Finite (1 / 2) \<rparr>"

text \<open>Four contexts whose stripped URLs are A, B, A, C.\<close>

definition abac_contexts :: "retrieved_context list" where
  "abac_contexts =
     [context_of '' https://a.example/x'' ''A'', context_of ''https://b.example/'' ''B '',
      context_of ''https://a.example/x '' ''A2'', context_of ''https://c.example/'' ''C'']"

text \<open>The invariant of the loop of \<open>_dedupe_and_diversify\<close>.\<close>

definition dd_inv :: "urllib \<Rightarrow> int \<Rightarrow> string set \<Rightarrow> (string \<rightharpoonup> int) \<Rightarrow> search_hit list \<Rightarrow> bool" where
  "dd_inv U cap seen counts out \<longleftrightarrow>
     distinct (map h_url out) \<and> h_url ` set out \<subseteq> seen
     \<and> (\<forall>d. count_of counts d = int (length (filter (\<lambda>h. domain U (h_url h) = d) out)))
     \<and> (\<forall>d. count_of counts d \<le> cap)"

text \<open>
  A small stand-in for \<open>urllib.parse\<close>, used in the examples only: it reads
  \<open>scheme://netloc/path?query#fragment\<close> and does no percent-decoding.
\<close>

definition url_delims :: "char set" where
  "url_delims = {CHR ''/'', CHR ''?'', CHR ''#''}"

definition demo_urlparse :: "string \<Rightarrow> url_parts option" where
  "demo_urlparse u =
     (let sch = takeWhile (\<lambda>c. c \<noteq> CHR '':'') u;
          rest = dropWhile (\<lambda>c. c \<noteq> CHR '':'') u
      in if take 3 rest = ''://'' then
           (let after = drop 3 rest;
                loc = takeWhile (\<lambda>c. c \<notin> url_delims) after;
                tail = dropWhile (\<lambda>c. c \<notin> url_delims) after;
                pth = takeWhile (\<lambda>c. c \<noteq> CHR ''?'' \<and> c \<noteq> CHR ''#'') tail;
                tail2 = dropWhile (\<lambda>c. c \<noteq> CHR ''?'' \<and> c \<noteq> CHR ''#'') tail;
                qry = (if take 1 tail2 = ''?'' then takeWhile (\<lambda>c. c \<noteq> CHR ''#'') (drop 1 tail2) else []);
                frag = drop 1 (dropWhile (\<lambda>c. c \<noteq> CHR ''#'') tail2)
            in Some \<lparr> u_scheme = lower sch, u_netloc = loc, u_path = pth, u_params = [],
                      u_query = qry, u_fragment = frag \<rparr>)
         else Some \<lparr> u_scheme = [], u_netloc = [], u_path = u, u_params = [],
                    u_query = [], u_fragment = [] \<rparr>)"

definition demo_urlunparse :: "url_parts \<Rightarrow> string option" where
  "demo_urlunparse p =
     Some (u_scheme p @ ''://'' @ u_netloc p @ u_path p
           @ (if u_query p = [] then [] else ''?'' @ u_query p)
           @ (if u_fragment p = [] then [] else ''#'' @ u_fragment p))"

fun split_on :: "char \<Rightarrow> string \<Rightarrow> string list" where
  "split_on sep [] = [[]]"
| "split_on sep (c # cs) =
     (if c = sep then [] # split_on sep cs
      else (case split_on sep cs of [] \<Rightarrow> [[c]] | w # ws \<Rightarrow> (c # w) # ws))"

definition demo_parse_qsl :: "string \<Rightarrow> (string \<times> string) list option" where
  "demo_parse_qsl q =
     Some (map (\<lambda>kv. (takeWhile (\<lambda>c. c \<noteq> CHR ''='') kv, drop 1 (dropWhile (\<lambda>c. c \<noteq> CHR ''='') kv)))
               (filter (\<lambda>kv. kv \<noteq> []) (split_on CHR ''&'' q)))"

fun join_pairs :: "(string \<times> string) list \<Rightarrow> string" where
  "join_pairs [] = []"
| "join_pairs [(k, v)] = k @ ''='' @ v"
| "join_pairs ((k, v) # ps) = k @ ''='' @ v @ ''&'' @ join_pairs ps"

definition demo_urllib :: urllib where
  "demo_urllib = \<lparr> urlparse = demo_urlparse, urlunparse = demo_urlunparse,
                   parse_qsl = demo_parse_qsl, urlencode = (\<lambda>ps. Some (join_pairs ps)) \<rparr>"

text \<open>Ten hits of the provider, six of them on one domain; the first attempt fails.\<close>

definition serp_hit :: "string \<Rightarrow> string \<Rightarrow> serp_item" where
  "serp_hit l t = \<lparr> link = Some l, s_title = Some t, snippet = None \<rparr>"

definition demo_organic :: "serp_item list" where
  "demo_organic =
     [serp_hit ''https://news.example/a?utm_source=feed&id=7'' ''N1'',
      serp_hit ''https://news.example/b'' ''N2'',
      serp_hit ''https://news.example/c'' ''N3'',
      serp_hit ''https://blog.example/x'' ''B1'',
      serp_hit ''https://news.example/d'' ''N4'',
      serp_hit ''https://news.example/e#top'' ''N5'',
      serp_hit ''https://wiki.example/y'' ''W1'',
      serp_hit ''https://news.example/f'' ''N6'',
      serp_hit ''https://docs.example/z'' ''D1'',
      serp_hit ''https://blog.example/x2'' ''B2'']"

definition demo_serp :: serp_env where
  "demo_serp query k attempt =
     (if attempt = 0 then SerpRequestException else SerpResponse 200 (Some demo_organic))"

definition hit :: "string \<Rightarrow> string \<Rightarrow> search_hit" where
  "hit t u = \<lparr> h_title = t, h_url = u, h_snippet = [] \<rparr>"

definition demo_diversified :: "search_hit list" where
  "demo_diversified =
     [hit ''N1'' ''https://news.example/a?id=7'', hit ''N2'' ''https://news.example/b'',
      hit ''B1'' ''https://blog.example/x'', hit ''W1'' ''https://wiki.example/y'',
      hit ''D1'' ''https://docs.example/z'', hit ''B2'' ''https://blog.example/x2'']"









text \<open>
  The HTTP library and a server for the examples. A timeout that is not positive is
  refused with a \<open>ValueError\<close>, and a host name with an empty label with a
  \<open>LocationParseError\<close>: neither is a \<open>RequestException\<close>. One host is unreachable; the
  others answer 503 on the first attempt and then serve an HTML page.
\<close>

definition demo_http :: http_env where
  "demo_http u timeout attempt =
     (if timeout \<le> 0 then UnhandledException (ValueError ''timeout must be positive'')
      else if u = ''https://a..example/''
      then UnhandledException (LocationParseError ''label empty or too long'')
      else if u = ''https://down.example/'' then RequestException
      else if attempt < 2 then HttpResponse 503 None []
      else HttpResponse 200 (Some ''Text/HTML; charset=utf-8'') ''<html>ok</html>'')"

definition failed_page :: "string \<Rightarrow> fetched_page" where
  "failed_page u = \<lparr> fp_url = u, fp_html = [], fp_status = 0 \<rparr>"

text \<open>
  Stand-ins for SHA-1 and for the text splitter, used in the examples only: the first
  tags its input, the second splits at line breaks and rejects an overlap above the
  chunk size.
\<close>

definition demo_sha1 :: sha1_hexdigest where
  "demo_sha1 s = ''sha1:'' @ s"

definition line_splitter :: text_splitter where
  "line_splitter chunk_size overlap txt =
     (if chunk_size < overlap then None else Some (split_on (CHR 0x0A) txt))"

definition demo_doc :: string where
  "demo_doc = '' First part.'' @ [CHR 0x0A] @ ''   '' @ [CHR 0x0A] @ ''Second part  ''"

definition doc_chunk :: "string \<Rightarrow> string \<Rightarrow> string \<Rightarrow> nat \<Rightarrow> chunk" where
  "doc_chunk cid txt ttl n =
     \<lparr> chunk_id = cid, ch_text = txt, ch_url = ''https://a.example/x'', ch_title = ttl, ch_order = n \<rparr>"

section \<open>Verified properties\<close>

subsection \<open>Evaluation helpers\<close>

lemma collection_name_demo: "collection_name default_settings ''demo'' = ''research_demo''"
  by (simp add: collection_name_def default_settings_def strip_def is_space_def)

subsection \<open>Vector upsert\<close>

text \<open>
  C10. \<open>upsert_vectors\<close> raises \<open>ValueError\<close> when the namespace is the empty string,
  whatever the records are and in particular when the records list is empty, and
  leaves the store as it was. The retriever, given the same empty namespace, returns
  the empty list instead of raising.
\<close>

theorem upsert_vectors_empty_namespace_raises:
  "upsert_vectors V S [] records st = (Inl (ValueError ''namespace is required''), st)
   \<and> upsert_vectors V S [] [] st = (Inl (ValueError ''namespace is required''), st)
   \<and> retrieve_context S E st [] question top_k = Inr []"
  by (simp add: upsert_vectors_def retrieve_context_def)

lemma demo_accepts_names:
  "accepts_name demo_store_env ''research_demo''
   \<and> accepts_name demo_store_env ''research_other''
   \<and> \<not> accepts_name demo_store_env ''research_a b''"
  by (simp add: demo_store_env_def)

lemma collection_name_other: "collection_name default_settings ''other'' = ''research_other''"
  by (simp add: collection_name_def default_settings_def strip_def is_space_def)

lemma collection_name_a_b: "collection_name default_settings ''a b'' = ''research_a b''"
  by (simp add: collection_name_def default_settings_def strip_def is_space_def)

text \<open>
  C9, as the claim states it, fails: a call whose records are all malformed upserts
  zero records and still creates the collection, because the collection is fetched or
  created before the records are validated.
\<close>

theorem upsert_vectors_all_malformed_creates_collection:
  "fst (upsert_vectors demo_store_env default_settings ''demo'' [malformed_record] empty_store) = Inr 0
   \<and> empty_store ''research_demo'' = None
   \<and> snd (upsert_vectors demo_store_env default_settings ''demo'' [malformed_record] empty_store)
         ''research_demo''
       = Some cosine_collection"
  using demo_accepts_names
  by (simp add: upsert_vectors_def collection_name_demo get_or_create_collection_def
        empty_store_def malformed_record_def cosine_collection_def or_empty_def strip_def
        is_space_def Let_def)

text \<open>
  C9, amended. \<open>upsert_vectors\<close> never deletes a collection and never touches a
  collection other than the namespace's own. A call with an empty namespace or an
  empty records list leaves the store unchanged. A call with a non-empty namespace
  and a non-empty records list asks the store for the namespace's collection before it
  validates a record: when the store accepts the collection's name, the collection
  exists afterwards, created if it was absent, also when no record is valid or the
  store then rejects the batch; when the store rejects the name, the call raises and
  the store is unchanged. A call that upserts zero records into a collection that
  already exists leaves the store unchanged.
\<close>

theorem upsert_vectors_store_effect:
  "(\<forall>name. st name \<noteq> None \<longrightarrow> snd (upsert_vectors V S namespace records st) name \<noteq> None)
   \<and> (\<forall>name. name \<noteq> collection_name S namespace
        \<longrightarrow> snd (upsert_vectors V S namespace records st) name = st name)
   \<and> (namespace = [] \<or> records = [] \<longrightarrow> snd (upsert_vectors V S namespace records st) = st)
   \<and> (namespace \<noteq> [] \<and> records \<noteq> [] \<and> accepts_name V (collection_name S namespace)
        \<longrightarrow> snd (upsert_vectors V S namespace records st) (collection_name S namespace) \<noteq> None)
   \<and> (namespace \<noteq> [] \<and> records \<noteq> [] \<and> \<not> accepts_name V (collection_name S namespace)
        \<longrightarrow> upsert_vectors V S namespace records st
              = (Inl (ValueError ''invalid collection name''), st))
   \<and> (fst (upsert_vectors V S namespace records st) = Inr 0
        \<and> st (collection_name S namespace) \<noteq> None
        \<longrightarrow> snd (upsert_vectors V S namespace records st) = st)"
  by (auto simp: upsert_vectors_def get_or_create_collection_def Let_def
           split: prod.splits option.splits if_splits sum.splits)

theorem upsert_vectors_store_effect_witness:
  "demo_store ''research_demo'' \<noteq> None
   \<and> ''research_demo'' \<noteq> collection_name default_settings ''other''
   \<and> [malformed_record] \<noteq> []
   \<and> accepts_name demo_store_env (collection_name default_settings ''other'')
   \<and> \<not> accepts_name demo_store_env (collection_name default_settings ''a b'')
   \<and> fst (upsert_vectors demo_store_env default_settings ''demo'' [malformed_record] demo_store) = Inr 0
   \<and> snd (upsert_vectors demo_store_env default_settings ''other'' [malformed_record] demo_store)
         ''research_demo''
       = demo_store ''research_demo''
   \<and> snd (upsert_vectors demo_store_env default_settings ''other'' [malformed_record] demo_store)
         (collection_name default_settings ''other'') \<noteq> None
   \<and> upsert_vectors demo_store_env default_settings ''a b'' [malformed_record] demo_store
       = (Inl (ValueError ''invalid collection name''), demo_store)
   \<and> snd (upsert_vectors demo_store_env default_settings ''demo'' [] demo_store) = demo_store
   \<and> snd (upsert_vectors demo_store_env default_settings ''demo'' [malformed_record] demo_store)
       = demo_store"
proof -
  have ok_other: "accepts_name demo_store_env (collection_name default_settings ''other'')"
    using demo_accepts_names by (simp add: collection_name_other)
  have no_a_b: "\<not> accepts_name demo_store_env (collection_name default_settings ''a b'')"
    using demo_accepts_names by (simp add: collection_name_a_b)
  have present: "demo_store (collection_name default_settings ''demo'') \<noteq> None"
    by (simp add: collection_name_demo demo_store_def)
  have zero: "fst (upsert_vectors demo_store_env default_settings ''demo'' [malformed_record] demo_store)
                = Inr 0"
    using demo_accepts_names
    by (simp add: upsert_vectors_def collection_name_demo get_or_create_collection_def
          demo_store_def malformed_record_def or_empty_def strip_def is_space_def Let_def)
  note other = upsert_vectors_store_effect
                 [where V = demo_store_env and st = demo_store and S = default_settings
                    and namespace = "''other''" and records = "[malformed_record]"]
  note reject = upsert_vectors_store_effect
                 [where V = demo_store_env and st = demo_store and S = default_settings
                    and namespace = "''a b''" and records = "[malformed_record]"]
  note empty = upsert_vectors_store_effect
                 [where V = demo_store_env and st = demo_store and S = default_settings
                    and namespace = "''demo''" and records = "[]"]
  note again = upsert_vectors_store_effect
                 [where V = demo_store_env and st = demo_store and S = default_settings
                    and namespace = "''demo''" and records = "[malformed_record]"]
  from other
  have a: "snd (upsert_vectors demo_store_env default_settings ''other'' [malformed_record] demo_store)
             ''research_demo'' = demo_store ''research_demo''"
    by (simp add: collection_name_other)
  from other ok_other
  have b: "snd (upsert_vectors demo_store_env default_settings ''other'' [malformed_record] demo_store)
             (collection_name default_settings ''other'') \<noteq> None"
    by simp
  from reject no_a_b
  have c: "upsert_vectors demo_store_env default_settings ''a b'' [malformed_record] demo_store
             = (Inl (ValueError ''invalid collection name''), demo_store)"
    by simp
  from empty
  have d: "snd (upsert_vectors demo_store_env default_settings ''demo'' [] demo_store) = demo_store"
    by simp
  from again zero present
  have e: "snd (upsert_vectors demo_store_env default_settings ''demo'' [malformed_record] demo_store)
             = demo_store"
    by blast
  have f: "demo_store ''research_demo'' \<noteq> None
             \<and> ''research_demo'' \<noteq> collection_name default_settings ''other''"
    by (simp add: collection_name_other demo_store_def)
  from a b c d e f zero ok_other no_a_b show ?thesis by simp
qed

subsection \<open>Retrieval and the QA orchestrator\<close>

lemma float_lt_asym: "float_lt a b \<Longrightarrow> \<not> float_lt b a"
  by (cases a; cases b) simp_all










text \<open>Two results whose scores round to the same double stay in the store's order.\<close>

lemma sort_by_score_desc_tie:
  "score a = score b \<Longrightarrow> score a \<noteq> NaN \<Longrightarrow> sort_by_score_desc E [a, b] = [a, b]"
proof -
  assume eq: "score a = score b" and nn: "score a \<noteq> NaN"
  have "\<not> float_lt (score b) (score b)"
    using float_lt_asym by blast
  with eq nn show ?thesis
    by (simp add: sort_by_score_desc_def stable_sort_desc_def)
qed








text \<open>
  C5. When the namespace's collection does not exist, \<open>retrieve_context\<close> returns the
  empty list, without an error, for every question and \<open>top_k\<close>. When retrieval
  returns the empty list, \<open>answer_question\<close> returns the fixed "no relevant context"
  message with no citations, and makes no call to the language model; so it does on a
  namespace whose collection does not exist.
\<close>

theorem retrieve_context_missing_collection:
  "(st (collection_name S namespace) = None
      \<longrightarrow> retrieve_context S E st namespace question top_k = Inr [])
   \<and> (retrieve_context S E st namespace question (Some (or_default top_k (RETRIEVAL_TOP_K S))) = Inr []
      \<longrightarrow> answer_question S E L st question namespace top_k calls
            = (Inr \<lparr> content = no_relevant_context_message, citations = [] \<rparr>, calls))
   \<and> (st (collection_name S namespace) = None
      \<longrightarrow> answer_question S E L st question namespace top_k calls
            = (Inr \<lparr> content = no_relevant_context_message, citations = [] \<rparr>, calls))"
  by (simp add: retrieve_context_def answer_question_def Let_def)

theorem retrieve_context_missing_collection_witness:
  "empty_store (collection_name default_settings ''demo'') = None
   \<and> retrieve_context default_settings demo_retrieval_env empty_store ''demo'' ''what is new?'' None = Inr []
   \<and> answer_question default_settings demo_retrieval_env demo_llm empty_store ''what is new?'' ''demo'' None []
       = (Inr \<lparr> content = no_relevant_context_message, citations = [] \<rparr>, [])"
  using retrieve_context_missing_collection
          [where st = empty_store and S = default_settings and namespace = "''demo''"
             and E = demo_retrieval_env and L = demo_llm and question = "''what is new?''"
             and top_k = None and calls = "[]"]
  by (simp add: empty_store_def)




subsection \<open>Answer synthesis\<close>

lemma dedupe_loop_spec:
  "dedupe_loop cs seen out
     = out @ dedupe_by_url_first (filter (\<lambda>p. c_url p \<noteq> [] \<and> c_url p \<notin> seen) (stripped_pairs cs))"
proof (induction cs arbitrary: seen out)
  case Nil
  then show ?case by (simp add: stripped_pairs_def)
next
  case (Cons c cs)
  let ?u = "strip (rc_url c)"
  show ?case
  proof (cases "?u = [] \<or> ?u \<in> seen")
    case True
    then show ?thesis
      using Cons.IH [of seen out] by (auto simp: stripped_pairs_def Let_def)
  next
    case False
    have flt: "filter (\<lambda>q. c_url q \<noteq> ?u) (filter (\<lambda>p. c_url p \<noteq> [] \<and> c_url p \<notin> seen) (stripped_pairs cs))
               = filter (\<lambda>p. c_url p \<noteq> [] \<and> c_url p \<notin> insert ?u seen) (stripped_pairs cs)"
      by (auto intro: filter_cong)
    show ?thesis
      using False Cons.IH [of "insert ?u seen" "out @ [\<lparr> c_url = ?u, c_title = strip (rc_title c) \<rparr>]"] flt
      by (simp add: stripped_pairs_def Let_def)
  qed
qed

lemma dedupe_urls_spec:
  "dedupe_urls ctxs = dedupe_by_url_first (filter (\<lambda>p. c_url p \<noteq> []) (stripped_pairs ctxs))"
  by (simp add: dedupe_urls_def dedupe_loop_spec)

lemma synthesize_answer_Inr:
  "synthesize_answer S L question contexts style temperature calls = (Inr ans, calls')
   \<Longrightarrow> contexts \<noteq> [] \<Longrightarrow> citations ans = dedupe_urls contexts"
  by (auto simp: synthesize_answer_def split: if_splits prod.splits sum.splits)

lemma demo_call_backend:
  "fst (call_backend default_settings demo_llm sys usr temperature calls) = Inr ''An answer.''"
  by (simp add: call_backend_def default_settings_def demo_llm_def chat_content_def
        lower_def lower_char_def strip_def is_space_def Let_def)

lemma demo_synthesize:
  "contexts \<noteq> [] \<Longrightarrow>
   fst (synthesize_answer default_settings demo_llm question contexts style temperature calls)
     = Inr \<lparr> content = ''An answer.'', citations = dedupe_urls contexts \<rparr>"
  using demo_call_backend [of sys_prompt "user_prompt question contexts style" temperature calls]
  by (auto simp: synthesize_answer_def split: prod.splits sum.splits)

text \<open>
  C3. With an empty contexts list \<open>synthesize_answer\<close> returns the canned "no context"
  message and an empty citations list, for every question, style, temperature, provider
  setting and backend; the log of backend calls is returned as it was, so no call to a
  language model is made.
\<close>

theorem synthesize_answer_empty_contexts:
  "synthesize_answer S L question [] style temperature calls
     = (Inr \<lparr> content = no_context_message, citations = [] \<rparr>, calls)"
  by (simp add: synthesize_answer_def)

text \<open>
  C4, as the claim states it, fails: a context whose url is empty has a \<open>{url, title}\<close>
  pair, and the code leaves it out of the citations.
\<close>

theorem synthesize_answer_drops_empty_url:
  "fst (synthesize_answer default_settings demo_llm ''q'' [context_of [] ''T''] ''concise'' (1 / 5) [])
     = Inr \<lparr> content = ''An answer.'', citations = [] \<rparr>
   \<and> spec_citations [context_of [] ''T''] = [\<lparr> c_url = [], c_title = ''T'' \<rparr>]"
  by (simp add: demo_synthesize dedupe_urls_def spec_citations_def context_pairs_def context_of_def
        strip_def is_space_def)

text \<open>
  C4, amended. Whenever \<open>synthesize_answer\<close> returns an answer for a non-empty contexts
  list, its citations are the \<open>{url, title}\<close> pairs of the contexts with url and title
  stripped of surrounding whitespace, without the pairs whose stripped url is empty,
  deduplicated by stripped url with the order of first appearance preserved. In
  particular, contexts whose stripped URLs are \<open>[A, B, A, C]\<close>, non-empty and distinct,
  yield citations with URLs exactly \<open>[A, B, C]\<close>.
\<close>

theorem synthesize_answer_citations:
  assumes "synthesize_answer S L question contexts style temperature calls = (Inr ans, calls')"
    and "contexts \<noteq> []"
  shows "citations ans = dedupe_by_url_first (filter (\<lambda>p. c_url p \<noteq> []) (stripped_pairs contexts))
         \<and> (\<forall>a b c. map (\<lambda>x. strip (rc_url x)) contexts = [a, b, a, c]
                     \<and> a \<noteq> [] \<and> b \<noteq> [] \<and> c \<noteq> [] \<and> distinct [a, b, c]
               \<longrightarrow> map c_url (citations ans) = [a, b, c])"
proof -
  have eq: "citations ans = dedupe_by_url_first (filter (\<lambda>p. c_url p \<noteq> []) (stripped_pairs contexts))"
    using synthesize_answer_Inr [OF assms] by (simp add: dedupe_urls_spec)
  have abc: "map c_url (citations ans) = [a, b, c]"
    if h: "map (\<lambda>x. strip (rc_url x)) contexts = [a, b, a, c]"
          "a \<noteq> []" "b \<noteq> []" "c \<noteq> []" "distinct [a, b, c]" for a b c
  proof -
    from h(1) obtain w x y z where ctx: "contexts = [w, x, y, z]"
      by (auto simp: map_eq_Cons_conv)
    with h show ?thesis
      by (auto simp: eq stripped_pairs_def)
  qed
  show ?thesis
  proof (intro conjI allI impI)
    show "citations ans = dedupe_by_url_first (filter (\<lambda>p. c_url p \<noteq> []) (stripped_pairs contexts))"
      by (rule eq)
  next
    fix a b c
    assume "map (\<lambda>x. strip (rc_url x)) contexts = [a, b, a, c]
              \<and> a \<noteq> [] \<and> b \<noteq> [] \<and> c \<noteq> [] \<and> distinct [a, b, c]"
    then show "map c_url (citations ans) = [a, b, c]"
      using abc [of a b c] by simp
  qed
qed

theorem synthesize_answer_citations_witness:
  "abac_contexts \<noteq> []
   \<and> map (\<lambda>x. strip (rc_url x)) abac_contexts
       = [''https://a.example/x'', ''https://b.example/'', ''https://a.example/x'', ''https://c.example/'']
   \<and> (\<exists>ans calls'.
         synthesize_answer default_settings demo_llm ''q'' abac_contexts ''concise'' (1 / 5) [] = (Inr ans, calls')
         \<and> citations ans = [\<lparr> c_url = ''https://a.example/x'', c_title = ''A'' \<rparr>,
                             \<lparr> c_url = ''https://b.example/'', c_title = ''B'' \<rparr>,
                             \<lparr> c_url = ''https://c.example/'', c_title = ''C'' \<rparr>])"
proof -
  let ?r = "synthesize_answer default_settings demo_llm ''q'' abac_contexts ''concise'' (1 / 5) []"
  let ?ans = "\<lparr> content = ''An answer.'', citations = dedupe_urls abac_contexts \<rparr>"
  have ne: "abac_contexts \<noteq> []"
    by (simp add: abac_contexts_def)
  have urls: "map (\<lambda>x. strip (rc_url x)) abac_contexts
       = [''https://a.example/x'', ''https://b.example/'', ''https://a.example/x'', ''https://c.example/'']"
    by (simp add: abac_contexts_def context_of_def strip_def is_space_def)
  have "fst ?r = Inr ?ans"
    using ne by (rule demo_synthesize)
  then have run: "?r = (Inr ?ans, snd ?r)"
    by (metis prod.collapse)
  have "citations ?ans
          = dedupe_by_url_first (filter (\<lambda>p. c_url p \<noteq> []) (stripped_pairs abac_contexts))"
    using synthesize_answer_citations [OF run ne] by blast
  then have "citations ?ans = [\<lparr> c_url = ''https://a.example/x'', c_title = ''A'' \<rparr>,
                             \<lparr> c_url = ''https://b.example/'', c_title = ''B'' \<rparr>,
                             \<lparr> c_url = ''https://c.example/'', c_title = ''C'' \<rparr>]"
    by (simp add: stripped_pairs_def abac_contexts_def context_of_def strip_def is_space_def)
  with run ne urls show ?thesis by blast
qed

subsection \<open>Web search\<close>

lemma dd_inv_step:
  assumes inv: "dd_inv U cap seen counts out"
    and new: "h_url it \<notin> seen"
    and room: "\<not> cap \<le> count_of counts (domain U (h_url it))"
  shows "dd_inv U cap (insert (h_url it) seen)
           (counts(domain U (h_url it) \<mapsto> count_of counts (domain U (h_url it)) + 1)) (out @ [it])"
proof -
  from inv have d: "distinct (map h_url out)" and s: "h_url ` set out \<subseteq> seen"
    and c: "\<And>d. count_of counts d = int (length (filter (\<lambda>h. domain U (h_url h) = d) out))"
    and l: "\<And>d. count_of counts d \<le> cap"
    by (auto simp: dd_inv_def)
  from s new have "h_url it \<notin> h_url ` set out" by blast
  with d have d': "distinct (map h_url (out @ [it]))" by simp
  from s have s': "h_url ` set (out @ [it]) \<subseteq> insert (h_url it) seen" by auto
  have c': "count_of (counts(domain U (h_url it) \<mapsto> count_of counts (domain U (h_url it)) + 1)) d
              = int (length (filter (\<lambda>h. domain U (h_url h) = d) (out @ [it])))" for d
    using c [of d] c [of "domain U (h_url it)"] by (simp add: count_of_def)
  have l': "count_of (counts(domain U (h_url it) \<mapsto> count_of counts (domain U (h_url it)) + 1)) d \<le> cap" for d
    using l [of d] room by (simp add: count_of_def)
  from d' s' c' l' show ?thesis
    unfolding dd_inv_def by blast
qed

lemma dd_loop_inv:
  "dd_inv U cap seen counts out \<Longrightarrow>
   \<exists>seen' counts'. dd_inv U cap seen' counts' (dd_loop U cap items seen counts out)"
proof (induction items arbitrary: seen counts out)
  case Nil
  then show ?case by auto
next
  case (Cons it items)
  show ?case
  proof (cases "h_url it = [] \<or> h_url it \<in> seen \<or> domain U (h_url it) = []
                 \<or> cap \<le> count_of counts (domain U (h_url it))")
    case True
    then show ?thesis using Cons.IH [OF Cons.prems] by auto
  next
    case False
    let ?seen = "insert (h_url it) seen"
    let ?counts = "counts(domain U (h_url it) \<mapsto> count_of counts (domain U (h_url it)) + 1)"
    from False have step: "dd_inv U cap ?seen ?counts (out @ [it])"
      using dd_inv_step [OF Cons.prems, of it] by simp
    have unfold: "dd_loop U cap (it # items) seen counts out
                    = dd_loop U cap items ?seen ?counts (out @ [it])"
      using False by simp
    show ?thesis
      unfolding unfold by (rule Cons.IH [OF step])
  qed
qed

lemma dd_inv_init: "0 \<le> cap \<Longrightarrow> dd_inv U cap {} Map.empty []"
  by (simp add: dd_inv_def count_of_def)

lemma dedupe_and_diversify_props:
  assumes "0 \<le> cap"
  shows "distinct (map h_url (dedupe_and_diversify U items cap))"
    and "int (length (filter (\<lambda>h. domain U (h_url h) = d) (dedupe_and_diversify U items cap))) \<le> cap"
proof -
  obtain seen' counts' where inv: "dd_inv U cap seen' counts' (dedupe_and_diversify U items cap)"
    using dd_loop_inv [OF dd_inv_init [OF assms]] unfolding dedupe_and_diversify_def by blast
  then show "distinct (map h_url (dedupe_and_diversify U items cap))"
    by (simp add: dd_inv_def)
  from inv have "count_of counts' d = int (length (filter (\<lambda>h. domain U (h_url h) = d) (dedupe_and_diversify U items cap)))"
    and "count_of counts' d \<le> cap"
    unfolding dd_inv_def by blast+
  then show "int (length (filter (\<lambda>h. domain U (h_url h) = d) (dedupe_and_diversify U items cap))) \<le> cap"
    by simp
qed

lemma length_filter_take: "length (filter P (take n xs)) \<le> length (filter P xs)"
proof -
  have "length (filter P xs) = length (filter P (take n xs @ drop n xs))" by simp
  also have "\<dots> = length (filter P (take n xs)) + length (filter P (drop n xs))"
    by (simp only: filter_append length_append)
  finally show ?thesis by simp
qed

lemma search_attempts_cases:
  "search_attempts U G query k as = []
   \<or> (\<exists>organic. search_attempts U G query k as
         = take (nat k) (dedupe_and_diversify U (build_results U organic) 2))"
  by (induction as) (auto split: serp_outcome.splits)

lemma search_web_cases:
  "search_web S U G query k = []
   \<or> (\<exists>organic. search_web S U G query k
         = take (nat (max 1 (min k (MAX_SEARCH_RESULTS S))))
             (dedupe_and_diversify U (build_results U organic) 2))"
  using search_attempts_cases [of U G query "max 1 (min k (MAX_SEARCH_RESULTS S))" "[0 ..< nat (MAX_RETRIES S + 1)]"]
  by (auto simp: search_web_def)

lemma demo_search_8: "search_web default_settings demo_urllib demo_serp ''q'' 8 = demo_diversified"
  by code_simp

lemma demo_search_0: "search_web default_settings demo_urllib demo_serp ''q'' 0 = [hit ''N1'' ''https://news.example/a?id=7'']"
  by code_simp

lemma demo_organic_shape:
  "length demo_organic = 10
   \<and> length (filter (\<lambda>i. domain demo_urllib (or_empty (link i)) = ''news.example'') demo_organic) = 6"
  by code_simp

text \<open>
  C7, as the claim states it, fails in its last part: the limit is clamped to at least 1,
  so a requested limit of 0 can return one entry.
\<close>

theorem search_web_zero_limit_returns_one:
  "length (search_web default_settings demo_urllib demo_serp ''q'' 0) = 1
   \<and> \<not> int (length (search_web default_settings demo_urllib demo_serp ''q'' 0)) \<le> 0"
  by (simp add: demo_search_0)

text \<open>
  C7, amended. For every provider response, the list returned by \<open>search_web\<close> has no
  two entries with the same (normalized) URL, has at most 2 entries from any single
  domain, and has length at most \<open>max(1, min(k, MAX_SEARCH_RESULTS))\<close>, which is at most
  the requested limit \<open>k\<close> whenever \<open>k\<close> is at least 1. In particular, of 10 hits where
  6 share one domain, at most 2 from that domain survive.
\<close>

theorem search_web_diversified:
  "distinct (map h_url (search_web S U G query k))
   \<and> (\<forall>d. length (filter (\<lambda>h. domain U (h_url h) = d) (search_web S U G query k)) \<le> 2)
   \<and> int (length (search_web S U G query k)) \<le> max 1 (min k (MAX_SEARCH_RESULTS S))
   \<and> (1 \<le> k \<longrightarrow> int (length (search_web S U G query k)) \<le> k)"
proof -
  let ?n = "nat (max 1 (min k (MAX_SEARCH_RESULTS S)))"
  consider (none) "search_web S U G query k = []"
    | (some) organic where "search_web S U G query k
         = take ?n (dedupe_and_diversify U (build_results U organic) 2)"
    using search_web_cases by blast
  then show ?thesis
  proof cases
    case none
    then show ?thesis by simp
  next
    case (some organic)
    let ?dd = "dedupe_and_diversify U (build_results U organic) 2"
    have d: "distinct (map h_url (take ?n ?dd))"
      using dedupe_and_diversify_props(1) [where cap = 2 and U = U and items = "build_results U organic"]
      by (simp add: take_map [symmetric])
    have c: "length (filter (\<lambda>h. domain U (h_url h) = dm) (take ?n ?dd)) \<le> 2" for dm
      using dedupe_and_diversify_props(2) [where cap = 2 and U = U and items = "build_results U organic" and d = dm]
            length_filter_take [of "\<lambda>h. domain U (h_url h) = dm" ?n ?dd]
      by linarith
    have l: "int (length (take ?n ?dd)) \<le> max 1 (min k (MAX_SEARCH_RESULTS S))"
      by simp
    have l1: "int (length (take ?n ?dd)) \<le> k" if "1 \<le> k"
    proof -
      from that have "max 1 (min k (MAX_SEARCH_RESULTS S)) \<le> k" by simp
      with l show ?thesis by (rule order_trans)
    qed
    from d c l l1 show ?thesis
      unfolding some by blast
  qed
qed

theorem search_web_diversified_witness:
  "length demo_organic = 10
   \<and> length (filter (\<lambda>i. domain demo_urllib (or_empty (link i)) = ''news.example'') demo_organic) = 6
   \<and> (1::int) \<le> 8
   \<and> search_web default_settings demo_urllib demo_serp ''q'' 8 = demo_diversified
   \<and> distinct (map h_url (search_web default_settings demo_urllib demo_serp ''q'' 8))
   \<and> length (filter (\<lambda>h. domain demo_urllib (h_url h) = ''news.example'')
                (search_web default_settings demo_urllib demo_serp ''q'' 8)) \<le> 2
   \<and> int (length (search_web default_settings demo_urllib demo_serp ''q'' 8)) \<le> 8"
  using search_web_diversified
          [where S = default_settings and U = demo_urllib and G = demo_serp and query = "''q''" and k = 8]
        demo_organic_shape demo_search_8
  by simp

subsection \<open>Embedding\<close>





























subsection \<open>Page fetcher\<close>

lemma fetch_loop_within_contract:
  "(\<And>t a e. H url t a \<noteq> UnhandledException e) \<Longrightarrow>
   \<exists>page. fetch_loop H url t m a = Inr page \<and> fp_url page = url
          \<and> (fp_status page \<noteq> 200 \<longrightarrow> fp_html page = [])"
proof (induction H url t m a rule: fetch_loop.induct)
  case (1 H url t m a)
  show ?case
  proof (cases "a < m")
    case False
    then show ?thesis by (simp add: fetch_loop.simps [of H url t m a])
  next
    case True
    show ?thesis
    proof (cases "H url t (a + 1)")
      case RequestException
      with True "1.IH"(2) "1.prems" show ?thesis
        by (simp add: fetch_loop.simps [of H url t m a])
    next
      case (UnhandledException e)
      with "1.prems" show ?thesis by simp
    next
      case (HttpResponse status ctype body)
      with True "1.IH"(1) "1.prems" show ?thesis
        by (simp add: fetch_loop.simps [of H url t m a])
    qed
  qed
qed

lemma fetch_loop_unreachable:
  "(\<And>t a. H url t a = RequestException) \<Longrightarrow>
   fetch_loop H url t m a = Inr \<lparr> fp_url = url, fp_html = [], fp_status = 0 \<rparr>"
proof (induction H url t m a rule: fetch_loop.induct)
  case (1 H url t m a)
  have r: "H url t (a + 1) = RequestException" by (rule "1.prems")
  show ?case
  proof (cases "a < m \<and> a + 1 < m")
    case True
    then have "fetch_loop H url t m (a + 1) = Inr \<lparr> fp_url = url, fp_html = [], fp_status = 0 \<rparr>"
      using "1.IH"(2) [OF _ r] "1.prems" by blast
    with True r show ?thesis
      by (simp add: fetch_loop.simps [of H url t m a])
  next
    case False
    with r show ?thesis
      by (auto simp: fetch_loop.simps [of H url t m a])
  qed
qed

text \<open>
  What holds of \<open>fetch_page\<close>. A URL that does not parse, or whose scheme is not
  http/https, gives \<open>{url, "", 0}\<close>. As long as the HTTP library raises nothing but
  \<open>RequestException\<close>, the function returns a record whose \<open>url\<close> is the input and whose
  \<open>html\<close> is empty unless the status is 200, and \<open>{url, "", 0}\<close> when every attempt
  raises. An exception of another class on the first attempt leaves the function.
\<close>

lemma fetch_page_within_contract:
  "(urlparse U url = None
      \<longrightarrow> fetch_page S U H url timeout_sec = Inr \<lparr> fp_url = url, fp_html = [], fp_status = 0 \<rparr>)
   \<and> (\<not> is_http_url U url
      \<longrightarrow> fetch_page S U H url timeout_sec = Inr \<lparr> fp_url = url, fp_html = [], fp_status = 0 \<rparr>)
   \<and> ((\<forall>t a e. H url t a \<noteq> UnhandledException e)
      \<longrightarrow> (\<exists>page. fetch_page S U H url timeout_sec = Inr page \<and> fp_url page = url
                  \<and> (fp_status page \<noteq> 200 \<longrightarrow> fp_html page = [])))
   \<and> ((\<forall>t a. H url t a = RequestException)
      \<longrightarrow> fetch_page S U H url timeout_sec = Inr \<lparr> fp_url = url, fp_html = [], fp_status = 0 \<rparr>)"
  using fetch_loop_within_contract
          [of H url "or_default timeout_sec (REQUEST_TIMEOUT_SECONDS S)" "MAX_RETRIES S + 1" 0]
        fetch_loop_unreachable
          [of H url "or_default timeout_sec (REQUEST_TIMEOUT_SECONDS S)" "MAX_RETRIES S + 1" 0]
  by (auto simp: fetch_page_def is_http_url_def)

lemma fetch_page_propagates:
  "is_http_url U url \<Longrightarrow> 0 < MAX_RETRIES S + 1
   \<Longrightarrow> H url (or_default timeout_sec (REQUEST_TIMEOUT_SECONDS S)) 1 = UnhandledException e
   \<Longrightarrow> fetch_page S U H url timeout_sec = Inl e"
  by (simp add: fetch_page_def
        fetch_loop.simps [of H url "or_default timeout_sec (REQUEST_TIMEOUT_SECONDS S)" "MAX_RETRIES S + 1" 0])

lemma demo_fetch_ok:
  "fetch_page default_settings demo_urllib demo_http ''https://news.example/a'' None
     = Inr \<lparr> fp_url = ''https://news.example/a'', fp_html = ''<html>ok</html>'', fp_status = 200 \<rparr>"
  by code_simp

lemma demo_fetch_failed:
  "fetch_page default_settings demo_urllib demo_http ''ftp://files.example/w'' None
     = Inr (failed_page ''ftp://files.example/w'')
   \<and> fetch_page default_settings demo_urllib demo_http ''not a url'' None
     = Inr (failed_page ''not a url'')
   \<and> fetch_page default_settings demo_urllib demo_http ''https://down.example/'' None
     = Inr (failed_page ''https://down.example/'')"
  by code_simp

text \<open>
  C1 does not hold of the code. The only handler in \<open>fetch_page\<close> is for
  \<open>RequestException\<close>; \<open>requests.get\<close> also raises exceptions of other classes, and
  those leave \<open>fetch_page\<close>, against the claim and against the function's own docstring
  ("never raises"). For the http URL \<open>https://a..example/\<close>, whose host has an empty
  label, the library raises \<open>LocationParseError\<close>; for a timeout of -1 it raises
  \<open>ValueError\<close>. In both cases \<open>fetch_page\<close> raises instead of returning
  \<open>{url, "", 0}\<close>.
\<close>

theorem fetch_page_raises_outside_handler:
  "is_http_url demo_urllib ''https://a..example/''
   \<and> fetch_page default_settings demo_urllib demo_http ''https://a..example/'' None
       = Inl (LocationParseError ''label empty or too long'')
   \<and> fetch_page default_settings demo_urllib demo_http ''https://news.example/a'' (Some (- 1))
       = Inl (ValueError ''timeout must be positive'')"
  by code_simp

subsection \<open>Chunker\<close>

lemma chunk_loop_member:
  "c \<in> set (chunk_loop sha1 url title n pieces) \<Longrightarrow>
   \<exists>i < length pieces.
     ch_order c = n + i \<and> ch_text c = strip (pieces ! i) \<and> ch_text c \<noteq> [] \<and> ch_url c = url
     \<and> chunk_id c = sha1 (url @ ''|'' @ decimal (ch_order c) @ ''|'' @ replace_newlines (take 40 (ch_text c)))"
proof (induction pieces arbitrary: n)
  case Nil
  then show ?case by simp
next
  case (Cons piece pieces)
  let ?t = "strip piece"
  let ?head = "\<lparr> chunk_id = hash_id sha1 (url @ ''|'' @ decimal n @ ''|'' @ replace_newlines (take 40 ?t)),
                  ch_text = ?t, ch_url = url, ch_title = or_empty title, ch_order = n \<rparr>"
  from Cons.prems consider (head) "?t \<noteq> []" "c = ?head"
    | (tail) "c \<in> set (chunk_loop sha1 url title (Suc n) pieces)"
    by (auto simp: Let_def split: if_splits)
  then show ?case
  proof cases
    case head
    then have "ch_order c = n + 0 \<and> ch_text c = strip ((piece # pieces) ! 0) \<and> ch_text c \<noteq> []
                 \<and> ch_url c = url
                 \<and> chunk_id c = sha1 (url @ ''|'' @ decimal (ch_order c) @ ''|'' @ replace_newlines (take 40 (ch_text c)))"
      by (simp add: hash_id_def)
    then show ?thesis by blast
  next
    case tail
    from Cons.IH [OF tail] obtain i where i: "i < length pieces"
      "ch_order c = Suc n + i" "ch_text c = strip (pieces ! i)" "ch_text c \<noteq> []" "ch_url c = url"
      "chunk_id c = sha1 (url @ ''|'' @ decimal (ch_order c) @ ''|'' @ replace_newlines (take 40 (ch_text c)))"
      by blast
    then have "Suc i < length (piece # pieces) \<and> ch_order c = n + Suc i
                 \<and> ch_text c = strip ((piece # pieces) ! Suc i) \<and> ch_text c \<noteq> [] \<and> ch_url c = url
                 \<and> chunk_id c = sha1 (url @ ''|'' @ decimal (ch_order c) @ ''|'' @ replace_newlines (take 40 (ch_text c)))"
      by simp
    then show ?thesis by blast
  qed
qed

lemma chunk_loop_ids_title:
  "map chunk_id (chunk_loop sha1 url title n pieces) = map chunk_id (chunk_loop sha1 url title' n pieces)"
  by (induction pieces arbitrary: n) (simp_all add: Let_def)

lemma split_chunks_Inr:
  "split_chunks S sha1 splitter doc_text url title cs ov = Inr chunks \<Longrightarrow>
   (doc_text = [] \<and> chunks = [])
   \<or> (\<exists>pieces. splitter (or_default cs (CHUNK_SIZE_TOKENS S)) (or_default ov (CHUNK_OVERLAP_TOKENS S)) doc_text
                   = Some pieces
                 \<and> chunks = chunk_loop sha1 url title 0 pieces)"
  by (auto simp: split_chunks_def split: if_splits option.splits)

lemma demo_split_A:
  "split_chunks default_settings demo_sha1 line_splitter demo_doc ''https://a.example/x'' (Some ''A'') None None
     = Inr [doc_chunk ''sha1:https://a.example/x|0|First part.'' ''First part.'' ''A'' 0,
            doc_chunk ''sha1:https://a.example/x|2|Second part'' ''Second part'' ''A'' 2]"
  by code_simp

lemma demo_split_B:
  "split_chunks default_settings demo_sha1 line_splitter demo_doc ''https://a.example/x'' (Some ''B'') None None
     = Inr [doc_chunk ''sha1:https://a.example/x|0|First part.'' ''First part.'' ''B'' 0,
            doc_chunk ''sha1:https://a.example/x|2|Second part'' ''Second part'' ''B'' 2]"
  by code_simp

text \<open>
  C2. Whenever \<open>split_chunks\<close> returns, each chunk's \<open>chunk_id\<close> is the SHA-1 hash of
  the url, the chunk's order and the first 40 characters of the chunk's trimmed text
  (joined by \<open>|\<close>, line breaks in the prefix written as spaces), where the order is the
  index of the piece the chunk was trimmed from. The id therefore depends on nothing
  else: two chunks of any two runs for the same url that agree on order and on the
  first 40 characters of their text have the same id, and a second run on the same
  inputs, whatever the title, yields the same list of ids.
\<close>

theorem split_chunks_chunk_ids:
  assumes run: "split_chunks S sha1 splitter doc_text url title cs ov = Inr chunks"
  shows "(\<forall>c \<in> set chunks.
            chunk_id c = sha1 (url @ ''|'' @ decimal (ch_order c) @ ''|''
                                @ replace_newlines (take 40 (ch_text c)))
            \<and> ch_url c = url \<and> ch_text c \<noteq> []
            \<and> (\<exists>pieces. splitter (or_default cs (CHUNK_SIZE_TOKENS S))
                                   (or_default ov (CHUNK_OVERLAP_TOKENS S)) doc_text = Some pieces
                          \<and> ch_order c < length pieces
                          \<and> ch_text c = strip (pieces ! ch_order c)))
       \<and> (\<forall>S' splitter' doc' title' cs' ov' chunks' c c'.
            split_chunks S' sha1 splitter' doc' url title' cs' ov' = Inr chunks'
            \<and> c \<in> set chunks \<and> c' \<in> set chunks'
            \<and> ch_order c = ch_order c' \<and> take 40 (ch_text c) = take 40 (ch_text c')
            \<longrightarrow> chunk_id c = chunk_id c')
       \<and> (\<forall>title' chunks'.
            split_chunks S sha1 splitter doc_text url title' cs ov = Inr chunks'
            \<longrightarrow> map chunk_id chunks' = map chunk_id chunks)"
proof -
  have member: "chunk_id c = sha1 (url @ ''|'' @ decimal (ch_order c) @ ''|''
                                @ replace_newlines (take 40 (ch_text c)))
            \<and> ch_url c = url \<and> ch_text c \<noteq> []
            \<and> (\<exists>pieces. splitter' (or_default cs' (CHUNK_SIZE_TOKENS S'))
                                   (or_default ov' (CHUNK_OVERLAP_TOKENS S')) doc' = Some pieces
                          \<and> ch_order c < length pieces
                          \<and> ch_text c = strip (pieces ! ch_order c))"
    if "split_chunks S' sha1 splitter' doc' url title' cs' ov' = Inr chunks'" "c \<in> set chunks'"
    for S' splitter' doc' title' cs' ov' chunks' c
  proof -
    from split_chunks_Inr [OF that(1)] that(2) obtain pieces where
      p: "splitter' (or_default cs' (CHUNK_SIZE_TOKENS S')) (or_default ov' (CHUNK_OVERLAP_TOKENS S')) doc'
            = Some pieces"
      and c: "c \<in> set (chunk_loop sha1 url title' 0 pieces)"
      by auto
    from chunk_loop_member [OF c] p show ?thesis by auto
  qed
  have first: "\<forall>c \<in> set chunks.
            chunk_id c = sha1 (url @ ''|'' @ decimal (ch_order c) @ ''|''
                                @ replace_newlines (take 40 (ch_text c)))
            \<and> ch_url c = url \<and> ch_text c \<noteq> []
            \<and> (\<exists>pieces. splitter (or_default cs (CHUNK_SIZE_TOKENS S))
                                   (or_default ov (CHUNK_OVERLAP_TOKENS S)) doc_text = Some pieces
                          \<and> ch_order c < length pieces
                          \<and> ch_text c = strip (pieces ! ch_order c))"
    using member [OF run] by blast
  have second: "chunk_id c = chunk_id c'"
    if "split_chunks S' sha1 splitter' doc' url title' cs' ov' = Inr chunks'"
       "c \<in> set chunks" "c' \<in> set chunks'"
       "ch_order c = ch_order c'" "take 40 (ch_text c) = take 40 (ch_text c')"
    for S' splitter' doc' title' cs' ov' chunks' c c'
    using member [OF run that(2)] member [OF that(1) that(3)] that(4,5) by simp
  have third: "map chunk_id chunks' = map chunk_id chunks"
    if r': "split_chunks S sha1 splitter doc_text url title' cs ov = Inr chunks'"
    for title' chunks'
  proof (cases "doc_text = []")
    case True
    with run r' show ?thesis by (simp add: split_chunks_def)
  next
    case False
    from split_chunks_Inr [OF run] False obtain pieces where
      p: "splitter (or_default cs (CHUNK_SIZE_TOKENS S)) (or_default ov (CHUNK_OVERLAP_TOKENS S)) doc_text
            = Some pieces"
      and c: "chunks = chunk_loop sha1 url title 0 pieces"
      by auto
    from split_chunks_Inr [OF r'] False p have "chunks' = chunk_loop sha1 url title' 0 pieces"
      by auto
    with c show ?thesis
      by (simp add: chunk_loop_ids_title [of sha1 url title' 0 pieces title])
  qed
  show ?thesis
  proof (intro conjI allI impI)
    show "\<forall>c \<in> set chunks.
            chunk_id c = sha1 (url @ ''|'' @ decimal (ch_order c) @ ''|''
                                @ replace_newlines (take 40 (ch_text c)))
            \<and> ch_url c = url \<and> ch_text c \<noteq> []
            \<and> (\<exists>pieces. splitter (or_default cs (CHUNK_SIZE_TOKENS S))
                                   (or_default ov (CHUNK_OVERLAP_TOKENS S)) doc_text = Some pieces
                          \<and> ch_order c < length pieces
                          \<and> ch_text c = strip (pieces ! ch_order c))"
      by (rule first)
  next
    fix S' splitter' doc' title' cs' ov' chunks' c c'
    assume "split_chunks S' sha1 splitter' doc' url title' cs' ov' = Inr chunks'
            \<and> c \<in> set chunks \<and> c' \<in> set chunks'
            \<and> ch_order c = ch_order c' \<and> take 40 (ch_text c) = take 40 (ch_text c')"
    then show "chunk_id c = chunk_id c'"
      using second [of S' splitter' doc' title' cs' ov' chunks' c c'] by simp
  next
    fix title' chunks'
    assume "split_chunks S sha1 splitter doc_text url title' cs ov = Inr chunks'"
    then show "map chunk_id chunks' = map chunk_id chunks"
      by (rule third)
  qed
qed

theorem split_chunks_chunk_ids_witness:
  "split_chunks default_settings demo_sha1 line_splitter demo_doc ''https://a.example/x'' (Some ''A'') None None
     = Inr [doc_chunk ''sha1:https://a.example/x|0|First part.'' ''First part.'' ''A'' 0,
            doc_chunk ''sha1:https://a.example/x|2|Second part'' ''Second part'' ''A'' 2]
   \<and> chunk_id (doc_chunk ''sha1:https://a.example/x|2|Second part'' ''Second part'' ''A'' 2)
       = demo_sha1 (''https://a.example/x'' @ ''|'' @ decimal 2 @ ''|''
                     @ replace_newlines (take 40 ''Second part''))
   \<and> map chunk_id [doc_chunk ''sha1:https://a.example/x|0|First part.'' ''First part.'' ''B'' 0,
                    doc_chunk ''sha1:https://a.example/x|2|Second part'' ''Second part'' ''B'' 2]
       = map chunk_id [doc_chunk ''sha1:https://a.example/x|0|First part.'' ''First part.'' ''A'' 0,
                       doc_chunk ''sha1:https://a.example/x|2|Second part'' ''Second part'' ''A'' 2]"
proof -
  let ?c2 = "doc_chunk ''sha1:https://a.example/x|2|Second part'' ''Second part'' ''A'' 2"
  note inst = split_chunks_chunk_ids [OF demo_split_A]
  from inst have "chunk_id ?c2 = demo_sha1 (''https://a.example/x'' @ ''|'' @ decimal (ch_order ?c2) @ ''|''
                     @ replace_newlines (take 40 (ch_text ?c2)))"
    by simp
  then have one: "chunk_id ?c2 = demo_sha1 (''https://a.example/x'' @ ''|'' @ decimal 2 @ ''|''
                     @ replace_newlines (take 40 ''Second part''))"
    by (simp add: doc_chunk_def)
  from inst demo_split_B
  have two: "map chunk_id [doc_chunk ''sha1:https://a.example/x|0|First part.'' ''First part.'' ''B'' 0,
                    doc_chunk ''sha1:https://a.example/x|2|Second part'' ''Second part'' ''B'' 2]
       = map chunk_id [doc_chunk ''sha1:https://a.example/x|0|First part.'' ''First part.'' ''A'' 0,
                       doc_chunk ''sha1:https://a.example/x|2|Second part'' ''Second part'' ''A'' 2]"
    by blast
  from demo_split_A one two show ?thesis by blast
qed

end
